theory Spec2Isabelle
  imports Main
begin

section \<open>The application entry point \<open>src/main.ts\<close>\<close>

text \<open>
  The file has three parts: its import declarations, one chained expression that declares
  the module \<open>app\<close> and calls \<open>config\<close>, \<open>component\<close> and \<open>service\<close> on it, and one
  call of \<open>bootstrap\<close>.  The functions \<open>module\<close> and \<open>bootstrap\<close> come from the
  package \<open>angular\<close> and the values passed to the chain come from other files; neither
  is part of \<open>main.ts\<close>.  The framework is therefore a parameter of the model, and the
  imported values are referred to by the names the import declarations bind.
\<close>

subsection \<open>Import declarations (lines 1 to 7)\<close>

text \<open>The names bound by the six default imports.\<close>

datatype binding =
    routes
  | ApplicationComponent
  | DashboardComponent
  | RegistrationComponent
  | UserService
  | RegistrationSuccessComponent

text \<open>
  \<open>import { a, b } from 'p'\<close> is \<open>Named [a, b] p\<close>, and \<open>import x from 'p'\<close> is
  \<open>Default x p\<close>.
\<close>

datatype import_decl =
    Named "string list" string
  | Default binding string

definition import_decls :: "import_decl list" where
  "import_decls =
    [Named [''bootstrap'', ''module''] ''angular'',
     Default routes ''./config/routes'',
     Default ApplicationComponent ''./components/application/application.component'',
     Default DashboardComponent ''./components/dashboard/dashboard.component'',
     Default RegistrationComponent ''./components/registration/registration.component'',
     Default UserService ''./services/user.service'',
     Default RegistrationSuccessComponent
       ''./components/registration-success/registration-success.component'']"

fun default_bindings :: "import_decl list \<Rightarrow> binding list" where
  "default_bindings [] = []"
| "default_bindings (Named ns p # ds) = default_bindings ds"
| "default_bindings (Default b p # ds) = b # default_bindings ds"

subsection \<open>The framework interface\<close>

text \<open>
  The global object \<open>document\<close> that the file passes to \<open>bootstrap\<close>.  The file is
  the entry point of a page, so the global exists and reading it does not throw.
\<close>

datatype global = document

text \<open>
  The five framework operations that the file uses.  \<open>'m\<close> is the type of module
  objects, \<open>'s\<close> the state of the framework and the page, \<open>'e\<close> the exceptions an
  operation may throw (\<open>Inl\<close>).  \<open>config\<close>, \<open>component\<close> and \<open>service\<close> are methods:
  their first argument is the receiver, and their result is the object on which the next
  method of the chain is called.
\<close>

record ('m, 's, 'e) angular =
  module :: "string \<Rightarrow> string list \<Rightarrow> 's \<Rightarrow> 'e + ('m \<times> 's)"
  config :: "'m \<Rightarrow> binding \<Rightarrow> 's \<Rightarrow> 'e + ('m \<times> 's)"
  component :: "'m \<Rightarrow> string \<Rightarrow> binding \<Rightarrow> 's \<Rightarrow> 'e + ('m \<times> 's)"
  service :: "'m \<Rightarrow> string \<Rightarrow> binding \<Rightarrow> 's \<Rightarrow> 'e + ('m \<times> 's)"
  bootstrap :: "global \<Rightarrow> string list \<Rightarrow> 's \<Rightarrow> 'e + 's"

subsection \<open>The body of the file (lines 10 to 20)\<close>

text \<open>
  An exception thrown by a call ends the evaluation and becomes the result: the file has
  no \<open>try\<close> block.
\<close>

definition and_then :: "'e + 'a \<Rightarrow> ('a \<Rightarrow> 'e + 'b) \<Rightarrow> 'e + 'b" where
  "and_then r f = (case r of Inl e \<Rightarrow> Inl e | Inr a \<Rightarrow> f a)"

definition main :: "('m, 's, 'e) angular \<Rightarrow> 's \<Rightarrow> 'e + 's" where
  "main ng s0 =
    and_then (module ng ''app'' [''ui.router''] s0) (\<lambda>(m1, s1).
    and_then (config ng m1 routes s1) (\<lambda>(m2, s2).
    and_then (component ng m2 ''applicationComponent'' ApplicationComponent s2) (\<lambda>(m3, s3).
    and_then (component ng m3 ''dashboardComponent'' DashboardComponent s3) (\<lambda>(m4, s4).
    and_then (service ng m4 ''userService'' UserService s4) (\<lambda>(m5, s5).
    and_then (component ng m5 ''registrationComponent'' RegistrationComponent s5) (\<lambda>(m6, s6).
    and_then (component ng m6 ''registrationSuccessComponent'' RegistrationSuccessComponent s6)
      (\<lambda>(m7, s7).
    bootstrap ng document [''app'', ''ngAnimate'', ''ngAria''] s7)))))))"

subsection \<open>A framework that records the calls made to it\<close>

text \<open>
  One entry per call of a framework operation, with the arguments of the call.  A module
  object is identified by the name it was declared with.
\<close>

datatype call =
    Module string "string list"
  | Config string binding
  | Component string string binding
  | Service string string binding
  | Bootstrap global "string list"

text \<open>
  The recording framework appends every call to the log and throws nothing.  A method
  returns its receiver, which is what makes lines 10 to 18 a chain on one module.
\<close>

definition recorder :: "(string, call list, 'e) angular" where
  "recorder =
    \<lparr> module = (\<lambda>name requires log. Inr (name, log @ [Module name requires])),
      config = (\<lambda>m b log. Inr (m, log @ [Config m b])),
      component = (\<lambda>m name b log. Inr (m, log @ [Component m name b])),
      service = (\<lambda>m name b log. Inr (m, log @ [Service m name b])),
      bootstrap = (\<lambda>g ms log. Inr (log @ [Bootstrap g ms])) \<rparr>"

text \<open>Reading a log: the kind of a call, its receiver, and what it registers.\<close>

fun is_module :: "call \<Rightarrow> bool" where
  "is_module (Module name requires) = True"
| "is_module c = False"

fun is_config :: "call \<Rightarrow> bool" where
  "is_config (Config m b) = True"
| "is_config c = False"

fun is_service :: "call \<Rightarrow> bool" where
  "is_service (Service m name b) = True"
| "is_service c = False"

fun is_bootstrap :: "call \<Rightarrow> bool" where
  "is_bootstrap (Bootstrap g ms) = True"
| "is_bootstrap c = False"

text \<open>A registration gives a name to a component or a service.\<close>

fun is_registration :: "call \<Rightarrow> bool" where
  "is_registration (Component m name b) = True"
| "is_registration (Service m name b) = True"
| "is_registration c = False"

fun registered_name :: "call \<Rightarrow> string option" where
  "registered_name (Component m name b) = Some name"
| "registered_name (Service m name b) = Some name"
| "registered_name c = None"

text \<open>The module object a method is called on.\<close>

fun receiver :: "call \<Rightarrow> string option" where
  "receiver (Config m b) = Some m"
| "receiver (Component m name b) = Some m"
| "receiver (Service m name b) = Some m"
| "receiver c = None"

text \<open>The imported value a call passes to the framework.\<close>

fun passed :: "call \<Rightarrow> binding option" where
  "passed (Config m b) = Some b"
| "passed (Component m name b) = Some b"
| "passed (Service m name b) = Some b"
| "passed c = None"

text \<open>The names of the modules a log declares.\<close>

fun declared :: "call list \<Rightarrow> string list" where
  "declared [] = []"
| "declared (Module name requires # cs) = name # declared cs"
| "declared (c # cs) = declared cs"

text \<open>
  A second framework, which differs from the recording one in \<open>bootstrap\<close>: it throws the
  name of the first listed module that the log does not declare.
\<close>

definition strict :: "(string, call list, string) angular" where
  "strict =
    recorder \<lparr> bootstrap := (\<lambda>g ms log.
      case filter (\<lambda>name. name \<notin> set (declared log)) ms of
        [] \<Rightarrow> Inr (log @ [Bootstrap g ms])
      | name # names \<Rightarrow> Inl name) \<rparr>"

subsection \<open>The text of the file\<close>

text \<open>The line feed character, which ends a line.\<close>

abbreviation LF :: char where
  "LF \<equiv> CHR 0x0A"

text \<open>
  The content of \<open>main.ts\<close>, character by character: 899 characters, the line feeds
  included.  Each row below is one line of the file with the line feed that follows it;
  the last row has none, as in the file.
\<close>

definition main_ts :: string where
  "main_ts =
     ''import { bootstrap, module } from 'angular';'' @ [LF] @
     ''import routes from './config/routes';'' @ [LF] @
     ''import ApplicationComponent from './components/application/application.component';'' @ [LF] @
     ''import DashboardComponent from './components/dashboard/dashboard.component';'' @ [LF] @
     ''import RegistrationComponent from './components/registration/registration.component';'' @ [LF] @
     ''import UserService from './services/user.service';'' @ [LF] @
     ''import RegistrationSuccessComponent from './components/registration-success/registration-success.component';'' @ [LF] @
     [LF] @
     [LF] @
     ''module('app', ['' @ [LF] @
     ''    'ui.router'' @ [CHR 0x27] @ [LF] @
     ''])'' @ [LF] @
     ''    .config(routes)'' @ [LF] @
     ''    .component('applicationComponent', ApplicationComponent)'' @ [LF] @
     ''    .component('dashboardComponent', DashboardComponent)'' @ [LF] @
     ''    .service('userService', UserService)'' @ [LF] @
     ''    .component('registrationComponent', RegistrationComponent)'' @ [LF] @
     ''    .component('registrationSuccessComponent', RegistrationSuccessComponent);'' @ [LF] @
     [LF] @
     ''bootstrap(document, ['app', 'ngAnimate', 'ngAria']);''"

text \<open>
  The lines of a text.  A line is a run of characters other than the line feed, ended
  by a line feed or by the end of the text; a line may be empty, and nothing follows a
  final line feed.
\<close>

fun text_lines :: "string \<Rightarrow> string list" where
  "text_lines [] = []"
| "text_lines (c # cs) =
     (if c = LF then [] # text_lines cs
      else (case text_lines cs of [] \<Rightarrow> [[c]] | l # ls \<Rightarrow> (c # l) # ls))"

section \<open>Properties\<close>

subsection \<open>The calls of one evaluation\<close>

text \<open>
  Against the recording framework the file returns normally from every initial log and
  adds eight calls to it.
\<close>

lemma main_recorder:
  "main recorder log =
     Inr (log @
       [Module ''app'' [''ui.router''],
        Config ''app'' routes,
        Component ''app'' ''applicationComponent'' ApplicationComponent,
        Component ''app'' ''dashboardComponent'' DashboardComponent,
        Service ''app'' ''userService'' UserService,
        Component ''app'' ''registrationComponent'' RegistrationComponent,
        Component ''app'' ''registrationSuccessComponent'' RegistrationSuccessComponent,
        Bootstrap document [''app'', ''ngAnimate'', ''ngAria'']])"
  by (simp add: main_def recorder_def and_then_def)

text \<open>
  Against any framework, the file returns normally exactly when each of its eight calls
  does, every call starting from the state the previous one left and every method being
  called on the result of the call before it.
\<close>

lemma main_returns:
  "main ng s0 = Inr s' \<longleftrightarrow>
    (\<exists>m1 s1 m2 s2 m3 s3 m4 s4 m5 s5 m6 s6 m7 s7.
      module ng ''app'' [''ui.router''] s0 = Inr (m1, s1) \<and>
      config ng m1 routes s1 = Inr (m2, s2) \<and>
      component ng m2 ''applicationComponent'' ApplicationComponent s2 = Inr (m3, s3) \<and>
      component ng m3 ''dashboardComponent'' DashboardComponent s3 = Inr (m4, s4) \<and>
      service ng m4 ''userService'' UserService s4 = Inr (m5, s5) \<and>
      component ng m5 ''registrationComponent'' RegistrationComponent s5 = Inr (m6, s6) \<and>
      component ng m6 ''registrationSuccessComponent'' RegistrationSuccessComponent s6 =
        Inr (m7, s7) \<and>
      bootstrap ng document [''app'', ''ngAnimate'', ''ngAria''] s7 = Inr s')"
  unfolding main_def and_then_def
  by (auto split: sum.splits prod.splits)

text \<open>
  Against any framework, the file throws exactly when one of its eight calls throws
  after the calls before it have returned normally, and it throws what that call throws.
\<close>

lemma main_throws:
  "main ng s0 = Inl e \<longleftrightarrow>
    module ng ''app'' [''ui.router''] s0 = Inl e \<or>
    (\<exists>m1 s1. module ng ''app'' [''ui.router''] s0 = Inr (m1, s1) \<and>
     (config ng m1 routes s1 = Inl e \<or>
    (\<exists>m2 s2. config ng m1 routes s1 = Inr (m2, s2) \<and>
     (component ng m2 ''applicationComponent'' ApplicationComponent s2 = Inl e \<or>
    (\<exists>m3 s3. component ng m2 ''applicationComponent'' ApplicationComponent s2 = Inr (m3, s3) \<and>
     (component ng m3 ''dashboardComponent'' DashboardComponent s3 = Inl e \<or>
    (\<exists>m4 s4. component ng m3 ''dashboardComponent'' DashboardComponent s3 = Inr (m4, s4) \<and>
     (service ng m4 ''userService'' UserService s4 = Inl e \<or>
    (\<exists>m5 s5. service ng m4 ''userService'' UserService s4 = Inr (m5, s5) \<and>
     (component ng m5 ''registrationComponent'' RegistrationComponent s5 = Inl e \<or>
    (\<exists>m6 s6. component ng m5 ''registrationComponent'' RegistrationComponent s5 = Inr (m6, s6) \<and>
     (component ng m6 ''registrationSuccessComponent'' RegistrationSuccessComponent s6 = Inl e \<or>
    (\<exists>m7 s7. component ng m6 ''registrationSuccessComponent'' RegistrationSuccessComponent s6 =
        Inr (m7, s7) \<and>
      bootstrap ng document [''app'', ''ngAnimate'', ''ngAria''] s7 = Inl e)))))))))))))"
  unfolding main_def and_then_def
  by (auto split: sum.splits prod.splits)

text \<open>The file as a text: its size and the number of its line feeds.\<close>

lemma main_ts_size: "length main_ts = 899 \<and> count_list main_ts LF = 19"
  unfolding main_ts_def by code_simp

subsection \<open>The bootstrap call\<close>

text \<open>
  Claim C1.  One evaluation of the file calls \<open>bootstrap\<close> exactly once: with the
  global \<open>document\<close> and with the module list \<open>['app', 'ngAnimate', 'ngAria']\<close>, which
  holds these three names and no other.  The call is the last one of the evaluation.
\<close>

theorem bootstrap_called_once:
  "\<exists>cs. main recorder log = Inr (log @ cs) \<and>
     filter is_bootstrap cs = [Bootstrap document [''app'', ''ngAnimate'', ''ngAria'']] \<and>
     filter is_bootstrap (butlast cs) = [] \<and>
     last cs = Bootstrap document [''app'', ''ngAnimate'', ''ngAria'']"
  by (simp add: main_recorder)

text \<open>
  Claim C2.  The four components \<open>applicationComponent\<close>, \<open>dashboardComponent\<close>,
  \<open>registrationComponent\<close>, \<open>registrationSuccessComponent\<close> and the service
  \<open>userService\<close> are registered before \<open>bootstrap\<close> is called: the five registrations
  all lie in the part of the evaluation before the call of \<open>bootstrap\<close>, and no
  registration is made from that call on.
\<close>

theorem registrations_precede_bootstrap:
  "\<exists>cs. main recorder log = Inr (log @ cs) \<and>
     filter is_registration (takeWhile (\<lambda>c. \<not> is_bootstrap c) cs) =
       [Component ''app'' ''applicationComponent'' ApplicationComponent,
        Component ''app'' ''dashboardComponent'' DashboardComponent,
        Service ''app'' ''userService'' UserService,
        Component ''app'' ''registrationComponent'' RegistrationComponent,
        Component ''app'' ''registrationSuccessComponent'' RegistrationSuccessComponent] \<and>
     filter is_registration (dropWhile (\<lambda>c. \<not> is_bootstrap c) cs) = []"
  by (simp add: main_recorder)

subsection \<open>The module declaration and its chain\<close>

text \<open>
  Claim C3.  The file declares one module, named \<open>app\<close>, and the dependency list of the
  declaration is exactly \<open>['ui.router']\<close>, the routing library.
\<close>

theorem app_requires_ui_router:
  "\<exists>cs. main recorder log = Inr (log @ cs) \<and>
     filter is_module cs = [Module ''app'' [''ui.router'']]"
  by (simp add: main_recorder)

text \<open>
  Claim C4.  The imported \<open>routes\<close> is passed to the \<open>config\<close> method of the module
  \<open>app\<close>, once, before \<open>bootstrap\<close> is called; in the chain the call of \<open>config\<close>
  comes directly after the declaration of the module, so no component and no service
  is registered before it.
\<close>

theorem routes_configured_before_registrations:
  "\<exists>cs. main recorder log = Inr (log @ cs) \<and>
     filter is_config cs = [Config ''app'' routes] \<and>
     filter is_config (takeWhile (\<lambda>c. \<not> is_bootstrap c) cs) = [Config ''app'' routes] \<and>
     takeWhile (\<lambda>c. \<not> is_config c) cs = [Module ''app'' [''ui.router'']] \<and>
     filter is_registration (takeWhile (\<lambda>c. \<not> is_config c) cs) = []"
  by (simp add: main_recorder)

text \<open>
  Claim C5.  Besides the two framework functions, the file imports six values: one that
  it registers as a service, and five others (the router configuration and four
  components).  Each of the six is passed to exactly one call of the chain, and every
  such call is made on the module \<open>app\<close>.
\<close>

theorem every_import_registered_once:
  "default_bindings import_decls =
     [routes, ApplicationComponent, DashboardComponent, RegistrationComponent, UserService,
      RegistrationSuccessComponent] \<and>
   (\<exists>cs. main recorder log = Inr (log @ cs) \<and>
     map passed (filter is_service cs) = [Some UserService] \<and>
     map passed (filter (\<lambda>c. passed c \<noteq> None \<and> \<not> is_service c) cs) =
       [Some routes, Some ApplicationComponent, Some DashboardComponent,
        Some RegistrationComponent, Some RegistrationSuccessComponent] \<and>
     map (\<lambda>b. length (filter (\<lambda>c. passed c = Some b) cs)) (default_bindings import_decls) =
       [1, 1, 1, 1, 1, 1] \<and>
     filter (\<lambda>c. passed c \<noteq> None \<and> receiver c \<noteq> Some ''app'') cs = [])"
  by (simp add: main_recorder import_decls_def)

text \<open>
  Claim C8.  The methods called on the module \<open>app\<close> are, in this order:
  \<open>config(routes)\<close>, \<open>component\<close> for \<open>applicationComponent\<close>, \<open>component\<close> for
  \<open>dashboardComponent\<close>, \<open>service\<close> for \<open>userService\<close>, \<open>component\<close> for
  \<open>registrationComponent\<close>, \<open>component\<close> for \<open>registrationSuccessComponent\<close>.  No
  method is called on another object, and the service is the third of the five
  registrations, neither the first nor the last.
\<close>

theorem registration_order:
  "\<exists>cs. main recorder log = Inr (log @ cs) \<and>
     filter (\<lambda>c. receiver c = Some ''app'') cs =
       [Config ''app'' routes,
        Component ''app'' ''applicationComponent'' ApplicationComponent,
        Component ''app'' ''dashboardComponent'' DashboardComponent,
        Service ''app'' ''userService'' UserService,
        Component ''app'' ''registrationComponent'' RegistrationComponent,
        Component ''app'' ''registrationSuccessComponent'' RegistrationSuccessComponent] \<and>
     filter (\<lambda>c. receiver c \<noteq> None \<and> receiver c \<noteq> Some ''app'') cs = [] \<and>
     map is_service (filter is_registration cs) = [False, False, True, False, False]"
  by (simp add: main_recorder)

text \<open>
  Claim C9.  The five names registered on the module \<open>app\<close> are pairwise distinct, so
  no registration of the file replaces an earlier one of the file.
\<close>

theorem registered_names_distinct:
  "\<exists>cs. main recorder log = Inr (log @ cs) \<and>
     map registered_name (filter is_registration cs) =
       [Some ''applicationComponent'', Some ''dashboardComponent'', Some ''userService'',
        Some ''registrationComponent'', Some ''registrationSuccessComponent''] \<and>
     distinct (map registered_name (filter is_registration cs))"
  by (simp add: main_recorder)

text \<open>
  Claim C10.  The calls of an evaluation do not depend on the state it starts from: two
  evaluations from any two initial logs add the same calls, with the same arguments, in
  the same order.
\<close>

theorem calls_independent_of_initial_log:
  "\<exists>cs. main recorder log1 = Inr (log1 @ cs) \<and> main recorder log2 = Inr (log2 @ cs)"
  by (simp add: main_recorder)

subsection \<open>Failures\<close>

text \<open>
  Claim C7, as amended.  The file has no failure logic of its own: it is straight-line
  code with no handler and no branch.  It makes its eight framework calls in order,
  each on the state the previous one left.  It returns normally exactly when all eight
  return normally, and it throws exactly when one of them throws after the calls before
  it have returned normally, the exception being that call's, unchanged.  In particular
  it throws nothing against a framework whose operations all return normally.
\<close>

theorem main_no_failure_logic:
  "((\<forall>name requires s. \<exists>r. module ng name requires s = Inr r) \<and>
    (\<forall>m b s. \<exists>r. config ng m b s = Inr r) \<and>
    (\<forall>m name b s. \<exists>r. component ng m name b s = Inr r) \<and>
    (\<forall>m name b s. \<exists>r. service ng m name b s = Inr r) \<and>
    (\<forall>g ms s. \<exists>r. bootstrap ng g ms s = Inr r)
      \<longrightarrow> (\<exists>s'. main ng s0 = Inr s')) \<and>
   (main ng s0 = Inr s' \<longleftrightarrow>
      (\<exists>m1 s1 m2 s2 m3 s3 m4 s4 m5 s5 m6 s6 m7 s7.
        module ng ''app'' [''ui.router''] s0 = Inr (m1, s1) \<and>
        config ng m1 routes s1 = Inr (m2, s2) \<and>
        component ng m2 ''applicationComponent'' ApplicationComponent s2 = Inr (m3, s3) \<and>
        component ng m3 ''dashboardComponent'' DashboardComponent s3 = Inr (m4, s4) \<and>
        service ng m4 ''userService'' UserService s4 = Inr (m5, s5) \<and>
        component ng m5 ''registrationComponent'' RegistrationComponent s5 = Inr (m6, s6) \<and>
        component ng m6 ''registrationSuccessComponent'' RegistrationSuccessComponent s6 =
          Inr (m7, s7) \<and>
        bootstrap ng document [''app'', ''ngAnimate'', ''ngAria''] s7 = Inr s')) \<and>
   (main ng s0 = Inl e \<longleftrightarrow>
      module ng ''app'' [''ui.router''] s0 = Inl e \<or>
      (\<exists>m1 s1. module ng ''app'' [''ui.router''] s0 = Inr (m1, s1) \<and>
       (config ng m1 routes s1 = Inl e \<or>
      (\<exists>m2 s2. config ng m1 routes s1 = Inr (m2, s2) \<and>
       (component ng m2 ''applicationComponent'' ApplicationComponent s2 = Inl e \<or>
      (\<exists>m3 s3. component ng m2 ''applicationComponent'' ApplicationComponent s2 = Inr (m3, s3) \<and>
       (component ng m3 ''dashboardComponent'' DashboardComponent s3 = Inl e \<or>
      (\<exists>m4 s4. component ng m3 ''dashboardComponent'' DashboardComponent s3 = Inr (m4, s4) \<and>
       (service ng m4 ''userService'' UserService s4 = Inl e \<or>
      (\<exists>m5 s5. service ng m4 ''userService'' UserService s4 = Inr (m5, s5) \<and>
       (component ng m5 ''registrationComponent'' RegistrationComponent s5 = Inl e \<or>
      (\<exists>m6 s6. component ng m5 ''registrationComponent'' RegistrationComponent s5 = Inr (m6, s6) \<and>
       (component ng m6 ''registrationSuccessComponent'' RegistrationSuccessComponent s6 = Inl e \<or>
      (\<exists>m7 s7. component ng m6 ''registrationSuccessComponent'' RegistrationSuccessComponent s6 =
          Inr (m7, s7) \<and>
        bootstrap ng document [''app'', ''ngAnimate'', ''ngAria''] s7 = Inl e))))))))))))))"
proof (intro conjI impI)
  assume ok:
    "(\<forall>name requires s. \<exists>r. module ng name requires s = Inr r) \<and>
     (\<forall>m b s. \<exists>r. config ng m b s = Inr r) \<and>
     (\<forall>m name b s. \<exists>r. component ng m name b s = Inr r) \<and>
     (\<forall>m name b s. \<exists>r. service ng m name b s = Inr r) \<and>
     (\<forall>g ms s. \<exists>r. bootstrap ng g ms s = Inr r)"
  obtain m1 s1 where c1: "module ng ''app'' [''ui.router''] s0 = Inr (m1, s1)"
    using ok by (metis surj_pair)
  obtain m2 s2 where c2: "config ng m1 routes s1 = Inr (m2, s2)"
    using ok by (metis surj_pair)
  obtain m3 s3 where c3:
    "component ng m2 ''applicationComponent'' ApplicationComponent s2 = Inr (m3, s3)"
    using ok by (metis surj_pair)
  obtain m4 s4 where c4:
    "component ng m3 ''dashboardComponent'' DashboardComponent s3 = Inr (m4, s4)"
    using ok by (metis surj_pair)
  obtain m5 s5 where c5: "service ng m4 ''userService'' UserService s4 = Inr (m5, s5)"
    using ok by (metis surj_pair)
  obtain m6 s6 where c6:
    "component ng m5 ''registrationComponent'' RegistrationComponent s5 = Inr (m6, s6)"
    using ok by (metis surj_pair)
  obtain m7 s7 where c7:
    "component ng m6 ''registrationSuccessComponent'' RegistrationSuccessComponent s6 =
       Inr (m7, s7)"
    using ok by (metis surj_pair)
  obtain s8 where c8: "bootstrap ng document [''app'', ''ngAnimate'', ''ngAria''] s7 = Inr s8"
    using ok by blast
  have "main ng s0 = Inr s8"
    by (simp add: main_def and_then_def c1 c2 c3 c4 c5 c6 c7 c8)
  then show "\<exists>s'. main ng s0 = Inr s'" ..
next
  show "main ng s0 = Inr s' \<longleftrightarrow>
      (\<exists>m1 s1 m2 s2 m3 s3 m4 s4 m5 s5 m6 s6 m7 s7.
        module ng ''app'' [''ui.router''] s0 = Inr (m1, s1) \<and>
        config ng m1 routes s1 = Inr (m2, s2) \<and>
        component ng m2 ''applicationComponent'' ApplicationComponent s2 = Inr (m3, s3) \<and>
        component ng m3 ''dashboardComponent'' DashboardComponent s3 = Inr (m4, s4) \<and>
        service ng m4 ''userService'' UserService s4 = Inr (m5, s5) \<and>
        component ng m5 ''registrationComponent'' RegistrationComponent s5 = Inr (m6, s6) \<and>
        component ng m6 ''registrationSuccessComponent'' RegistrationSuccessComponent s6 =
          Inr (m7, s7) \<and>
        bootstrap ng document [''app'', ''ngAnimate'', ''ngAria''] s7 = Inr s')"
    by (rule main_returns)
next
  show "main ng s0 = Inl e \<longleftrightarrow>
      module ng ''app'' [''ui.router''] s0 = Inl e \<or>
      (\<exists>m1 s1. module ng ''app'' [''ui.router''] s0 = Inr (m1, s1) \<and>
       (config ng m1 routes s1 = Inl e \<or>
      (\<exists>m2 s2. config ng m1 routes s1 = Inr (m2, s2) \<and>
       (component ng m2 ''applicationComponent'' ApplicationComponent s2 = Inl e \<or>
      (\<exists>m3 s3. component ng m2 ''applicationComponent'' ApplicationComponent s2 = Inr (m3, s3) \<and>
       (component ng m3 ''dashboardComponent'' DashboardComponent s3 = Inl e \<or>
      (\<exists>m4 s4. component ng m3 ''dashboardComponent'' DashboardComponent s3 = Inr (m4, s4) \<and>
       (service ng m4 ''userService'' UserService s4 = Inl e \<or>
      (\<exists>m5 s5. service ng m4 ''userService'' UserService s4 = Inr (m5, s5) \<and>
       (component ng m5 ''registrationComponent'' RegistrationComponent s5 = Inl e \<or>
      (\<exists>m6 s6. component ng m5 ''registrationComponent'' RegistrationComponent s5 = Inr (m6, s6) \<and>
       (component ng m6 ''registrationSuccessComponent'' RegistrationSuccessComponent s6 = Inl e \<or>
      (\<exists>m7 s7. component ng m6 ''registrationSuccessComponent'' RegistrationSuccessComponent s6 =
          Inr (m7, s7) \<and>
        bootstrap ng document [''app'', ''ngAnimate'', ''ngAria''] s7 = Inl e)))))))))))))"
    by (rule main_throws)
qed

text \<open>
  The recording framework throws nothing, so the file returns normally against it from
  the empty log.
\<close>

theorem main_no_failure_logic_witness:
  "\<exists>s'. main (recorder :: (string, call list, unit) angular) [] = Inr s'"
proof -
  let ?rec = "recorder :: (string, call list, unit) angular"
  have ok:
    "(\<forall>name requires s. \<exists>r. module ?rec name requires s = Inr r) \<and>
     (\<forall>m b s. \<exists>r. config ?rec m b s = Inr r) \<and>
     (\<forall>m name b s. \<exists>r. component ?rec m name b s = Inr r) \<and>
     (\<forall>m name b s. \<exists>r. service ?rec m name b s = Inr r) \<and>
     (\<forall>g ms s. \<exists>r. bootstrap ?rec g ms s = Inr r)"
    by (simp add: recorder_def)
  from main_no_failure_logic [of ?rec "[]", THEN conjunct1, rule_format, OF ok]
  show ?thesis .
qed

text \<open>
  Claim C7 as stated, that the file never ends with an error, does not hold.  The file
  declares neither \<open>ngAnimate\<close> nor \<open>ngAria\<close>, so against the second framework, from
  the empty log, it ends with the exception that \<open>bootstrap\<close> throws.
\<close>

theorem main_ends_with_exception: "main strict [] = Inl ''ngAnimate''"
  by (simp add: main_def strict_def recorder_def and_then_def)

subsection \<open>The size of the file\<close>

text \<open>
  Claim C6, as amended.  The file that performs the wiring and the bootstrap has
  exactly 20 lines.
\<close>

theorem main_ts_has_20_lines: "length (text_lines main_ts) = 20"
  unfolding main_ts_def by code_simp

text \<open>
  Claim C6 as stated, that the file has exactly 21 lines, does not hold: the number of
  its lines differs from 21.
\<close>

theorem main_ts_has_not_21_lines: "length (text_lines main_ts) \<noteq> 21"
  unfolding main_ts_def by code_simp

end
